theory Spec2Isabelle
  imports Complex_Main "HOL-Library.Sublist"
begin

section \<open>JavaScript numbers\<close>

text \<open>
  A JavaScript \<^verbatim>\<open>number\<close> is an IEEE-754 binary64 value. A finite one is kept as
  \<open>Double m e\<close>, standing for \<open>m * 2 ^ e\<close>, in the unique form the format stores:
  \<open>2 ^ 52 \<le> \<bar>m\<bar> < 2 ^ 53\<close> for a normal number, \<open>e = - 1074\<close> for a subnormal one,
  \<open>Double 0 0\<close> for zero. \<open>NaN\<close>, the infinities and the sign of zero are left out:
  every literal of the source is finite, and the client itself does no arithmetic on them.
\<close>

datatype number = Double int int

fun val :: "number \<Rightarrow> rat" where
  "val (Double m e) = (if 0 \<le> e then of_int m * 2 ^ nat e else of_int m / 2 ^ nat (- e))"

text \<open>\<open>ilog2 n\<close> is the position of the highest set bit of \<open>n\<close>.\<close>

fun ilog2 :: "nat \<Rightarrow> nat" where
  "ilog2 n = (if n < 2 then 0 else Suc (ilog2 (n div 2)))"

declare ilog2.simps [simp del]

definition scale2 :: "int \<Rightarrow> int \<Rightarrow> int" where
  "scale2 x k = x * 2 ^ nat k"

text \<open>For \<open>p, q > 0\<close>, \<open>binade p q\<close> is the \<open>k\<close> with \<open>2 ^ k \<le> p / q < 2 ^ (k + 1)\<close>.\<close>

definition binade_fix :: "int \<Rightarrow> int \<Rightarrow> int \<Rightarrow> int" where
  "binade_fix p q k = (if scale2 q k \<le> scale2 p (- k) then k else k - 1)"

definition binade :: "int \<Rightarrow> int \<Rightarrow> int" where
  "binade p q = binade_fix p q (int (ilog2 (nat p)) - int (ilog2 (nat q)))"

text \<open>The integer nearest to \<open>p / q\<close> (\<open>q > 0\<close>), a tie going to the even one.\<close>

definition round_half_even :: "int \<Rightarrow> int \<Rightarrow> int" where
  "round_half_even p q =
     (if 2 * (p mod q) < q then p div q
      else if q < 2 * (p mod q) then p div q + 1
      else if even (p div q) then p div q else p div q + 1)"

definition renorm :: "int \<Rightarrow> int \<Rightarrow> number" where
  "renorm m e = (if \<bar>m\<bar> = 2 ^ 53 then Double (m div 2) (e + 1) else Double m e)"

definition nearest_at :: "int \<Rightarrow> int \<Rightarrow> int \<Rightarrow> number" where
  "nearest_at p q e = renorm (round_half_even (scale2 p (- e)) (scale2 q e)) e"

text \<open>
  \<open>nearest p q\<close> is the binary64 value nearest to the rational \<open>p / q\<close> (\<open>q > 0\<close>)
  under round-to-nearest, ties-to-even: the rounding of a decimal literal and of every
  arithmetic result. Overflow to infinity is not modelled.
\<close>

definition nearest :: "int \<Rightarrow> int \<Rightarrow> number" where
  "nearest p q =
     (if p = 0 then Double 0 0
      else nearest_at p q (max (binade \<bar>p\<bar> q) (- 1022) - 52))"

text \<open>
  The numeric literal with digits \<open>n\<close> and \<open>k\<close> of them after the point:
  \<^verbatim>\<open>0.98\<close> is \<open>dec 98 2\<close>, \<^verbatim>\<open>1.0\<close> is \<open>dec 10 1\<close>, \<^verbatim>\<open>150\<close> is \<open>dec 150 0\<close>.
\<close>

definition dec :: "int \<Rightarrow> nat \<Rightarrow> number" where
  "dec n k = nearest n (10 ^ k)"

text \<open>
  The \<^verbatim>\<open>-\<close> operator on numbers, in which a caller would check a \<open>delta_mean\<close>:
  the exact difference, rounded.
\<close>

definition sub_at :: "int \<Rightarrow> int \<Rightarrow> int \<Rightarrow> int \<Rightarrow> int \<Rightarrow> number" where
  "sub_at m1 e1 m2 e2 e =
     nearest (scale2 (scale2 m1 (e1 - e) - scale2 m2 (e2 - e)) e) (scale2 1 (- e))"

fun js_sub :: "number \<Rightarrow> number \<Rightarrow> number" where
  "js_sub (Double m1 e1) (Double m2 e2) = sub_at m1 e1 m2 e2 (min e1 e2)"

section \<open>JavaScript strings\<close>

text \<open>
  \<^verbatim>\<open>String.prototype.includes\<close>: whether the second string occurs in the first as a
  contiguous run. Strings are lists of characters.
\<close>

fun startsWith :: "string \<Rightarrow> string \<Rightarrow> bool" where
  "startsWith s [] = True"
| "startsWith [] (c # w) = False"
| "startsWith (x # s) (c # w) = (x = c \<and> startsWith s w)"

fun js_includes :: "string \<Rightarrow> string \<Rightarrow> bool" where
  "js_includes [] w = (w = [])"
| "js_includes (x # s) w = (startsWith (x # s) w \<or> js_includes s w)"

section \<open>The data model of \<^verbatim>\<open>dem-client.ts\<close>\<close>

record DemConfig =
  baseUrl :: string
  region :: string
  accessKey :: string
  secretKey :: string

text \<open>
  \<^verbatim>\<open>Partial<DemConfig>\<close>: every field may be left out. A field that is there holds a
  string, as the interface says (a property set to \<^verbatim>\<open>undefined\<close>, or one that
  \<^verbatim>\<open>DemConfig\<close> does not name, is outside the model).
\<close>

record PartialDemConfig =
  baseUrl_opt :: "string option"
  region_opt :: "string option"
  accessKey_opt :: "string option"
  secretKey_opt :: "string option"

text \<open>
  \<^verbatim>\<open>SurvivalData\<close>. The one-letter fields \<^verbatim>\<open>km.t\<close>, \<^verbatim>\<open>km.s\<close>, \<^verbatim>\<open>hazard.t\<close>,
  \<^verbatim>\<open>hazard.h\<close> and \<^verbatim>\<open>n\<close> carry a prefix here.
\<close>

record KmCurve =
  km_t :: "number list"
  km_s :: "number list"

record HazardCurve =
  hazard_t :: "number list"
  hazard_h :: "number list"

record Percentiles =
  p10 :: number
  p50 :: number
  p90 :: number

record SurvivalData =
  km :: KmCurve
  hazard :: HazardCurve
  percentiles :: Percentiles
  sample_n :: number
  censored :: number

text \<open>
  \<^verbatim>\<open>PredictionData\<close>; \<^verbatim>\<open>atHorizons\<close> is a \<^verbatim>\<open>Record<string, number>\<close>, kept as the
  list of its entries in the order of the object literal.
\<close>

record PredictionData =
  pred_t :: "number list"
  pred_s :: "number list"
  atHorizons :: "(string \<times> number) list"

record ComplementStats =
  feature :: string
  failed_mean :: number
  complement_mean :: number
  delta_mean :: number
  failed_iqr :: "number \<times> number"
  complement_iqr :: "number \<times> number"
  delta_iqr :: number

record BinSeries =
  bins :: "number list"
  counts :: "number list"

record TDigestData =
  failed :: BinSeries
  survived :: BinSeries

text \<open>
  \<^verbatim>\<open>ApiResponse<T>\<close>: each of the three fields is optional. The type parameter is
  erased at run time; the payloads the client produces are these four shapes.
\<close>

datatype payload =
    Survival SurvivalData
  | Prediction PredictionData
  | StatsList "ComplementStats list"
  | TDigest TDigestData

record ApiResponse =
  data :: "payload option"
  error :: "string option"
  message :: "string option"

section \<open>Values, errors and promises\<close>

text \<open>
  The arguments typed \<^verbatim>\<open>any\<close> (cohort filters, feature values) are JavaScript values.
  \<^verbatim>\<open>JSON.stringify\<close> throws a \<^verbatim>\<open>TypeError\<close> on a value that holds a \<^verbatim>\<open>BigInt\<close>
  (and on a cyclic object, which a tree cannot hold); on every other value it returns.
\<close>

datatype jsany =
    JUndefined
  | JNull
  | JBoolean bool
  | JNumber number
  | JString string
  | JBigInt int
  | JArray "jsany list"
  | JObject "(string \<times> jsany) list"

fun has_bigint :: "jsany \<Rightarrow> bool" where
  "has_bigint (JBigInt i) = True"
| "has_bigint (JArray vs) = list_ex has_bigint vs"
| "has_bigint (JObject kvs) = list_ex has_bigint (map snd kvs)"
| "has_bigint v = False"

text \<open>
  What is thrown: an \<^verbatim>\<open>Error\<close> object with its message (the only one that arises is a
  \<^verbatim>\<open>TypeError\<close>), or a value that is no \<^verbatim>\<open>Error\<close>.
\<close>

datatype js_error = TypeError string | ThrownValue

text \<open>
  The client never reads the text of a request body, so the text is kept as the value it
  was serialized from.
\<close>

datatype json_text = JsonText jsany

definition JSON_stringify :: "jsany \<Rightarrow> js_error + json_text" where
  "JSON_stringify v =
     (if has_bigint v then Inl (TypeError ''Do not know how to serialize a BigInt'')
      else Inr (JsonText v))"

text \<open>
  An \<^verbatim>\<open>async\<close> function returns a promise: it resolves with the value returned, and
  rejects with what the body threw. A caller that awaits a rejected promise has the
  error thrown at it.
\<close>

datatype 'a promise = Resolved 'a | Rejected js_error

text \<open>
  \<^verbatim>\<open>RequestInit\<close>, with the three members the client touches (\<^verbatim>\<open>method\<close> is
  \<open>http_method\<close> here). Its \<open>headers\<close> are the name and value pairs as the caller
  gave them.
\<close>

record RequestInit =
  http_method :: "string option"
  body :: "json_text option"
  headers :: "(string \<times> string) list"

definition no_options :: RequestInit where
  "no_options = \<lparr>http_method = None, body = None, headers = []\<rparr>"

subsection \<open>The platform's \<^verbatim>\<open>Headers\<close>\<close>

text \<open>
  \<^verbatim>\<open>Headers\<close> follows the Fetch standard. A value is normalized (leading and trailing
  HTTP whitespace is removed) and then validated with its name: the name must be a
  token, the value must hold no NUL, no line feed and no carriage return; otherwise a
  \<^verbatim>\<open>TypeError\<close> is thrown. The wording of its message is the platform's; the folding of
  names to lower case is not modelled. Characters here are bytes; a character above
  \<^verbatim>\<open>0xFF\<close>, which the platform refuses as well, is not among them.
\<close>

definition http_whitespace :: "char \<Rightarrow> bool" where
  "http_whitespace c = (c = CHR 0x09 \<or> c = CHR 0x0A \<or> c = CHR 0x0D \<or> c = CHR 0x20)"

definition normalize_value :: "string \<Rightarrow> string" where
  "normalize_value v = rev (dropWhile http_whitespace (rev (dropWhile http_whitespace v)))"

definition legal_header_value :: "string \<Rightarrow> bool" where
  "legal_header_value v = (CHR 0x00 \<notin> set v \<and> CHR 0x0A \<notin> set v \<and> CHR 0x0D \<notin> set v)"

definition tchar_code :: "nat \<Rightarrow> bool" where
  "tchar_code n =
     ((48 \<le> n \<and> n \<le> 57) \<or> (65 \<le> n \<and> n \<le> 90) \<or> (97 \<le> n \<and> n \<le> 122) \<or>
      n \<in> set [33, 35, 36, 37, 38, 39, 42, 43, 45, 46, 94, 95, 96, 124, 126])"

definition is_tchar :: "char \<Rightarrow> bool" where
  "is_tchar c = tchar_code (of_char c)"

definition legal_header_name :: "string \<Rightarrow> bool" where
  "legal_header_name k = (k \<noteq> [] \<and> list_all is_tchar k)"

definition validate :: "string \<Rightarrow> string \<Rightarrow> js_error option" where
  "validate k v =
     (if legal_header_name k
      then (if legal_header_value v then None else Some (TypeError ''Invalid header value''))
      else Some (TypeError ''Invalid header name''))"

text \<open>\<open>replace_entry\<close> puts a value in the place of the entry of that name, or at the end.\<close>

fun replace_entry :: "string \<Rightarrow> string \<Rightarrow> (string \<times> string) list \<Rightarrow> (string \<times> string) list" where
  "replace_entry k v [] = [(k, v)]"
| "replace_entry k v (p # ps) = (if fst p = k then (k, v) # ps else p # replace_entry k v ps)"

definition Headers_set ::
  "string \<Rightarrow> string \<Rightarrow> (string \<times> string) list \<Rightarrow> js_error + (string \<times> string) list" where
  "Headers_set k v hs =
     (case validate k (normalize_value v) of
        Some e \<Rightarrow> Inl e
      | None \<Rightarrow> Inr (replace_entry k (normalize_value v) hs))"

definition Headers_append ::
  "string \<Rightarrow> string \<Rightarrow> (string \<times> string) list \<Rightarrow> js_error + (string \<times> string) list" where
  "Headers_append k v hs =
     (case validate k (normalize_value v) of
        Some e \<Rightarrow> Inl e
      | None \<Rightarrow> Inr (hs @ [(k, normalize_value v)]))"

text \<open>\<^verbatim>\<open>new Headers(init)\<close> appends the pairs of \<open>init\<close> one by one.\<close>

fun Headers_fill ::
  "(string \<times> string) list \<Rightarrow> (string \<times> string) list \<Rightarrow> js_error + (string \<times> string) list" where
  "Headers_fill [] hs = Inr hs"
| "Headers_fill ((k, v) # rest) hs =
     (case Headers_append k v hs of Inl e \<Rightarrow> Inl e | Inr hs' \<Rightarrow> Headers_fill rest hs')"

definition Headers_new :: "(string \<times> string) list \<Rightarrow> js_error + (string \<times> string) list" where
  "Headers_new init = Headers_fill init []"

subsection \<open>The platform's \<^verbatim>\<open>Date\<close>\<close>

text \<open>
  The reading of the clock, \<^verbatim>\<open>new Date()\<close>, as its calendar fields in UTC, and
  \<^verbatim>\<open>toISOString\<close>, which prints them as \<^verbatim>\<open>YYYY-MM-DDTHH:mm:ss.sssZ\<close> (with a sign
  and six digits for a year beyond 9999).
\<close>

record Date =
  utcFullYear :: nat
  utcMonth :: nat
  utcDate :: nat
  utcHours :: nat
  utcMinutes :: nat
  utcSeconds :: nat
  utcMilliseconds :: nat

definition digit_char :: "nat \<Rightarrow> char" where
  "digit_char n = ''0123456789'' ! (n mod 10)"

fun pad :: "nat \<Rightarrow> nat \<Rightarrow> string" where
  "pad 0 n = []"
| "pad (Suc w) n = pad w (n div 10) @ [digit_char n]"

definition toISOString :: "Date \<Rightarrow> string" where
  "toISOString d =
     (if utcFullYear d \<le> 9999 then pad 4 (utcFullYear d) else CHR ''+'' # pad 6 (utcFullYear d))
     @ ''-'' @ pad 2 (utcMonth d) @ ''-'' @ pad 2 (utcDate d)
     @ ''T'' @ pad 2 (utcHours d) @ '':'' @ pad 2 (utcMinutes d) @ '':'' @ pad 2 (utcSeconds d)
     @ ''.'' @ pad 3 (utcMilliseconds d) @ ''Z''"

section \<open>The client\<close>

record DemClient =
  config :: "DemConfig option"

definition initializeConfig :: "DemClient \<Rightarrow> DemClient" where
  "initializeConfig c = c\<lparr>config := Some
     \<lparr>baseUrl = ''https://api.nextmatrix.demo'',
      region = ''us-west-2'',
      accessKey = ''mock-access-key'',
      secretKey = ''mock-secret-key''\<rparr>\<rparr>"

text \<open>The constructor: the field initializer \<^verbatim>\<open>config = null\<close>, then \<open>initializeConfig\<close>.\<close>

definition DemClient_new :: DemClient where
  "DemClient_new = initializeConfig \<lparr>config = None\<rparr>"

text \<open>
  \<open>signRequest\<close> takes the clock's reading \<open>now\<close> (\<^verbatim>\<open>new Date()\<close>) as an
  argument. \<open>authorization\<close> is the template literal of the \<^verbatim>\<open>Authorization\<close> header;
  \<^verbatim>\<open>this.config?.accessKey\<close> in it is \<^verbatim>\<open>undefined\<close> without a configuration. What
  \<^verbatim>\<open>new Headers\<close> or \<^verbatim>\<open>headers.set\<close> throws rejects the promise.
\<close>

definition authorization :: "DemClient \<Rightarrow> string" where
  "authorization c =
     ''AWS4-HMAC-SHA256 Credential=''
       @ (case config c of None \<Rightarrow> ''undefined'' | Some cfg \<Rightarrow> accessKey cfg)
       @ ''/...''"

definition signRequest :: "DemClient \<Rightarrow> Date \<Rightarrow> string \<Rightarrow> RequestInit \<Rightarrow> RequestInit promise" where
  "signRequest c now url options =
     (case Headers_new (headers options) of
        Inl e \<Rightarrow> Rejected e
      | Inr h0 \<Rightarrow>
     (case Headers_set ''Authorization'' (authorization c) h0 of
        Inl e \<Rightarrow> Rejected e
      | Inr h1 \<Rightarrow>
     (case Headers_set ''X-Amz-Date'' (toISOString now) h1 of
        Inl e \<Rightarrow> Rejected e
      | Inr h2 \<Rightarrow>
     (case Headers_set ''Content-Type'' ''application/json'' h2 of
        Inl e \<Rightarrow> Rejected e
      | Inr h3 \<Rightarrow> Resolved (options\<lparr>headers := h3\<rparr>)))))"

subsection \<open>The canned payloads of \<open>getMockResponse\<close>\<close>

definition mockSurvival :: SurvivalData where
  "mockSurvival =
     \<lparr>km = \<lparr>
        km_t =
         [dec 0 0, dec 10 0, dec 20 0, dec 30 0, dec 40 0, dec 50 0, dec 60 0, dec 70 0,
          dec 80 0, dec 90 0, dec 100 0, dec 110 0, dec 120 0, dec 130 0, dec 140 0,
          dec 150 0],
        km_s =
         [dec 10 1, dec 98 2, dec 95 2, dec 92 2, dec 88 2, dec 83 2, dec 78 2, dec 72 2,
          dec 66 2, dec 59 2, dec 52 2, dec 45 2, dec 38 2, dec 31 2, dec 24 2, dec 18 2]\<rparr>,
      hazard = \<lparr>
        hazard_t =
         [dec 0 0, dec 10 0, dec 20 0, dec 30 0, dec 40 0, dec 50 0, dec 60 0, dec 70 0,
          dec 80 0, dec 90 0, dec 100 0, dec 110 0, dec 120 0, dec 130 0, dec 140 0,
          dec 150 0],
        hazard_h =
         [dec 2 2, dec 22 3, dec 25 3, dec 28 3, dec 32 3, dec 36 3, dec 41 3, dec 47 3,
          dec 53 3, dec 60 3, dec 68 3, dec 77 3, dec 87 3, dec 98 3, dec 111 3, dec 125 3]\<rparr>,
      percentiles = \<lparr>p10 = dec 35 0, p50 = dec 89 0, p90 = dec 145 0\<rparr>,
      sample_n = dec 1542 0,
      censored = dec 31 2\<rparr>"

definition mockPrediction :: PredictionData where
  "mockPrediction =
     \<lparr>pred_t =
         [dec 0 0, dec 10 0, dec 20 0, dec 30 0, dec 40 0, dec 50 0, dec 60 0, dec 70 0,
          dec 80 0, dec 90 0, dec 100 0, dec 110 0, dec 120 0, dec 130 0, dec 140 0,
          dec 150 0],
      pred_s =
         [dec 10 1, dec 97 2, dec 94 2, dec 90 2, dec 85 2, dec 80 2, dec 74 2, dec 68 2,
          dec 62 2, dec 55 2, dec 48 2, dec 42 2, dec 35 2, dec 29 2, dec 23 2, dec 18 2],
      atHorizons =
         [(''10'', dec 97 2), (''50'', dec 80 2), (''100'', dec 48 2), (''150'', dec 18 2)]\<rparr>"

definition mockStats :: "ComplementStats list" where
  "mockStats =
     [\<lparr>feature = ''RPM'',
       failed_mean = dec 1805 1,
       complement_mean = dec 1652 1,
       delta_mean = dec 153 1,
       failed_iqr = (dec 150 0, dec 210 0),
       complement_iqr = (dec 140 0, dec 190 0),
       delta_iqr = dec 10 0\<rparr>,
      \<lparr>feature = ''WOB'',
       failed_mean = dec 258 1,
       complement_mean = dec 221 1,
       delta_mean = dec 37 1,
       failed_iqr = (dec 20 0, dec 30 0),
       complement_iqr = (dec 18 0, dec 26 0),
       delta_iqr = dec 2 0\<rparr>,
      \<lparr>feature = ''ROP'',
       failed_mean = dec 452 1,
       complement_mean = dec 386 1,
       delta_mean = dec 66 1,
       failed_iqr = (dec 35 0, dec 55 0),
       complement_iqr = (dec 30 0, dec 47 0),
       delta_iqr = dec 5 0\<rparr>]"

definition mockTDigest :: TDigestData where
  "mockTDigest =
     \<lparr>failed = \<lparr>
        bins =
         [dec 140 0, dec 150 0, dec 160 0, dec 170 0, dec 180 0, dec 190 0, dec 200 0,
          dec 210 0, dec 220 0],
        counts =
         [dec 12 0, dec 28 0, dec 45 0, dec 67 0, dec 89 0, dec 76 0, dec 54 0, dec 32 0,
          dec 18 0]\<rparr>,
      survived = \<lparr>
        bins =
         [dec 130 0, dec 140 0, dec 150 0, dec 160 0, dec 170 0, dec 180 0, dec 190 0,
          dec 200 0, dec 210 0],
        counts =
         [dec 18 0, dec 42 0, dec 78 0, dec 112 0, dec 134 0, dec 98 0, dec 67 0, dec 34 0,
          dec 15 0]\<rparr>\<rparr>"

definition ok :: "payload \<Rightarrow> ApiResponse" where
  "ok p = \<lparr>data = Some p, error = None, message = None\<rparr>"

definition err :: "string \<Rightarrow> ApiResponse" where
  "err m = \<lparr>data = None, error = Some m, message = None\<rparr>"

definition getMockResponse :: "string \<Rightarrow> RequestInit \<Rightarrow> ApiResponse" where
  "getMockResponse path options =
     (if js_includes path ''/federation/aggregate'' then ok (Survival mockSurvival)
      else if js_includes path ''/models/survival/predict'' then ok (Prediction mockPrediction)
      else if js_includes path ''/exploration/complement-stats'' then ok (StatsList mockStats)
      else if js_includes path ''/exploration/conditional-tdigest'' then ok (TDigest mockTDigest)
      else err ''Mock endpoint not implemented'')"

text \<open>
  \<open>fetch\<close>: the guard on the configuration, then the \<^verbatim>\<open>try\<close> block, whose
  \<^verbatim>\<open>catch\<close> turns what was thrown into an error response.
\<close>

definition catch_message :: "js_error \<Rightarrow> string" where
  "catch_message e = (case e of TypeError m \<Rightarrow> m | ThrownValue \<Rightarrow> ''Unknown error occurred'')"

definition fetch :: "DemClient \<Rightarrow> Date \<Rightarrow> string \<Rightarrow> RequestInit \<Rightarrow> ApiResponse promise" where
  "fetch c now path options =
     (case config c of
        None \<Rightarrow> Resolved (err ''DEM client not configured. Please check environment variables.'')
      | Some cfg \<Rightarrow>
          (case signRequest c now (baseUrl cfg @ path) options of
             Resolved signedOptions \<Rightarrow> Resolved (getMockResponse path options)
           | Rejected e \<Rightarrow> Resolved (err (catch_message e))))"

subsection \<open>The request methods\<close>

text \<open>
  Each method builds its path and, but for \<open>getFederationPeers\<close>, its body, then calls
  \<open>fetch\<close>. The body is an argument of that call, so \<^verbatim>\<open>JSON.stringify\<close> runs before
  \<open>fetch\<close> is entered; what it throws rejects the method's promise.
\<close>

definition post :: "DemClient \<Rightarrow> Date \<Rightarrow> string \<Rightarrow> jsany \<Rightarrow> ApiResponse promise" where
  "post c now path v =
     (case JSON_stringify v of
        Inl e \<Rightarrow> Rejected e
      | Inr b \<Rightarrow> fetch c now path \<lparr>http_method = Some ''POST'', body = Some b, headers = []\<rparr>)"

definition getFederationPeers :: "DemClient \<Rightarrow> Date \<Rightarrow> string \<Rightarrow> ApiResponse promise" where
  "getFederationPeers c now projectId =
     fetch c now (''/api/v1/projects/'' @ projectId @ ''/federation/peers'') no_options"

definition aggregateData ::
  "DemClient \<Rightarrow> Date \<Rightarrow> string \<Rightarrow> jsany \<Rightarrow> string list \<Rightarrow> number list \<Rightarrow> ApiResponse promise" where
  "aggregateData c now projectId cohort metrics horizons =
     post c now (''/api/v1/projects/'' @ projectId @ ''/federation/aggregate'')
       (JObject [(''cohort'', cohort),
                 (''metrics'', JArray (map JString metrics)),
                 (''horizons'', JArray (map JNumber horizons))])"

definition getComplementStats ::
  "DemClient \<Rightarrow> Date \<Rightarrow> string \<Rightarrow> jsany \<Rightarrow> string \<Rightarrow> string list \<Rightarrow> ApiResponse promise" where
  "getComplementStats c now projectId cohort condition features =
     post c now (''/api/v1/projects/'' @ projectId @ ''/exploration/complement-stats'')
       (JObject [(''cohort'', cohort),
                 (''condition'', JString condition),
                 (''features'', JArray (map JString features))])"

definition getConditionalTDigest ::
  "DemClient \<Rightarrow> Date \<Rightarrow> string \<Rightarrow> string \<Rightarrow> string \<Rightarrow> number \<Rightarrow> ApiResponse promise" where
  "getConditionalTDigest c now projectId feat classBy nbins =
     post c now (''/api/v1/projects/'' @ projectId @ ''/exploration/conditional-tdigest'')
       (JObject [(''feature'', JString feat),
                 (''classBy'', JString classBy),
                 (''bins'', JNumber nbins)])"

text \<open>The algorithm tag \<^verbatim>\<open>'weibull' | 'cox'\<close>.\<close>

datatype algo = Weibull | Cox

definition algo_name :: "algo \<Rightarrow> string" where
  "algo_name a = (case a of Weibull \<Rightarrow> ''weibull'' | Cox \<Rightarrow> ''cox'')"

definition trainSurvivalModel ::
  "DemClient \<Rightarrow> Date \<Rightarrow> string \<Rightarrow> algo \<Rightarrow> string \<Rightarrow> string \<Rightarrow> string list \<Rightarrow> jsany
     \<Rightarrow> ApiResponse promise" where
  "trainSurvivalModel c now projectId a label censor features cohort =
     post c now (''/api/v1/projects/'' @ projectId @ ''/models/survival/train'')
       (JObject [(''algo'', JString (algo_name a)),
                 (''label'', JString label),
                 (''censor'', JString censor),
                 (''features'', JArray (map JString features)),
                 (''cohort'', cohort)])"

definition predictSurvival ::
  "DemClient \<Rightarrow> Date \<Rightarrow> string \<Rightarrow> string \<Rightarrow> jsany \<Rightarrow> number list \<Rightarrow> ApiResponse promise" where
  "predictSurvival c now projectId modelId features horizons =
     post c now (''/api/v1/projects/'' @ projectId @ ''/models/survival/predict'')
       (JObject [(''modelId'', JString modelId),
                 (''features'', features),
                 (''horizons'', JArray (map JNumber horizons))])"

definition isConfigured :: "DemClient \<Rightarrow> bool" where
  "isConfigured c = (config c \<noteq> None)"

definition getConfig :: "DemClient \<Rightarrow> DemConfig option" where
  "getConfig c = config c"

text \<open>
  \<open>updateConfig\<close>: the spread \<^verbatim>\<open>{ ...this.config, ...config }\<close> takes each field from
  the partial object when it is there and from the current configuration otherwise.
\<close>

definition spread :: "DemConfig \<Rightarrow> PartialDemConfig \<Rightarrow> DemConfig" where
  "spread cur p =
     \<lparr>baseUrl = (case baseUrl_opt p of Some v \<Rightarrow> v | None \<Rightarrow> baseUrl cur),
      region = (case region_opt p of Some v \<Rightarrow> v | None \<Rightarrow> region cur),
      accessKey = (case accessKey_opt p of Some v \<Rightarrow> v | None \<Rightarrow> accessKey cur),
      secretKey = (case secretKey_opt p of Some v \<Rightarrow> v | None \<Rightarrow> secretKey cur)\<rparr>"

definition updateConfig :: "DemClient \<Rightarrow> PartialDemConfig \<Rightarrow> DemClient" where
  "updateConfig c p =
     (case config c of
        Some cur \<Rightarrow> c\<lparr>config := Some (spread cur p)\<rparr>
      | None \<Rightarrow> c)"

text \<open>The exported singleton.\<close>

definition demClient :: DemClient where
  "demClient = DemClient_new"

section \<open>Notions used by the properties\<close>

text \<open>The two error responses of the client.\<close>

definition not_configured :: ApiResponse where
  "not_configured = err ''DEM client not configured. Please check environment variables.''"

definition not_implemented :: ApiResponse where
  "not_implemented = err ''Mock endpoint not implemented''"

text \<open>A response carries a payload or an error message, and not both.\<close>

definition exactly_one :: "ApiResponse \<Rightarrow> bool" where
  "exactly_one r = ((data r = None) \<noteq> (error r = None))"

text \<open>
  The clients a program can hold: the constructor builds one, \<open>updateConfig\<close> changes
  it, and a caller may write to the fields of the object that \<open>getConfig\<close> hands out,
  which is the client's own configuration object, not a copy. The request methods,
  \<open>isConfigured\<close> and \<open>getConfig\<close> leave the client as it is. The field
  \<^verbatim>\<open>config\<close> is private: nothing outside the class assigns it.
\<close>

inductive reachable :: "DemClient \<Rightarrow> bool" where
  constructed: "reachable DemClient_new"
| updated: "reachable c \<Longrightarrow> reachable (updateConfig c p)"
| alias_written:
    "reachable c \<Longrightarrow> config c = Some cur \<Longrightarrow> reachable (c\<lparr>config := Some cur'\<rparr>)"

text \<open>The four substrings that \<open>getMockResponse\<close> tests for.\<close>

definition wired :: "string list" where
  "wired = [''/federation/aggregate'', ''/models/survival/predict'',
            ''/exploration/complement-stats'', ''/exploration/conditional-tdigest'']"

text \<open>
  The dispatch rule in the words of the specification: scan a fixed, ordered list of
  (substring, responder) pairs, return the payload of the first substring match, and an
  error response with the message "Mock endpoint not implemented" if none matches.
\<close>

definition spec_dispatch_table :: "(string \<times> payload) list" where
  "spec_dispatch_table =
     [(''/federation/aggregate'', Survival mockSurvival),
      (''/models/survival/predict'', Prediction mockPrediction),
      (''/exploration/complement-stats'', StatsList mockStats),
      (''/exploration/conditional-tdigest'', TDigest mockTDigest)]"

fun spec_first_match :: "string \<Rightarrow> (string \<times> payload) list \<Rightarrow> payload option" where
  "spec_first_match path [] = None"
| "spec_first_match path ((w, p) # rest) =
     (if js_includes path w then Some p else spec_first_match path rest)"

definition spec_dispatch :: "string \<Rightarrow> ApiResponse" where
  "spec_dispatch path =
     (case spec_first_match path spec_dispatch_table of
        Some p \<Rightarrow> ok p
      | None \<Rightarrow> err ''Mock endpoint not implemented'')"

text \<open>
  \<^verbatim>\<open>Number(k)\<close> for a key \<open>k\<close> that is a run of decimal digits (the empty string
  gives 0). For any other string the model gives \<open>None\<close>.
\<close>

definition digit_of :: "char \<Rightarrow> nat option" where
  "digit_of c =
     (if 48 \<le> (of_char c :: nat) \<and> (of_char c :: nat) \<le> 57 then Some (of_char c - 48)
      else None)"

fun digits_value :: "nat \<Rightarrow> string \<Rightarrow> nat option" where
  "digits_value acc [] = Some acc"
| "digits_value acc (c # cs) =
     (case digit_of c of None \<Rightarrow> None | Some d \<Rightarrow> digits_value (10 * acc + d) cs)"

definition js_Number :: "string \<Rightarrow> number option" where
  "js_Number k = map_option (\<lambda>n. nearest (int n) 1) (digits_value 0 k)"

text \<open>Two readings of the clock and an access key with a line feed in it, for the examples.\<close>

definition new_year_2026 :: Date where
  "new_year_2026 =
     \<lparr>utcFullYear = 2026, utcMonth = 1, utcDate = 1, utcHours = 0, utcMinutes = 0,
      utcSeconds = 0, utcMilliseconds = 0\<rparr>"


definition broken_key :: PartialDemConfig where
  "broken_key =
     \<lparr>baseUrl_opt = None, region_opt = None,
      accessKey_opt = Some [CHR ''a'', CHR 0x0A, CHR ''b''], secretKey_opt = None\<rparr>"

section \<open>Evaluating numbers\<close>

lemma ilog2_numeral:
  "ilog2 (numeral k) = (if (numeral k :: nat) < 2 then 0 else Suc (ilog2 (numeral k div 2)))"
  by (rule ilog2.simps)

lemma ilog2_small: "ilog2 0 = 0" "ilog2 1 = 0" "ilog2 (Suc 0) = 0"
  by (simp_all add: ilog2.simps)

lemmas num_eval =
  dec_def nearest_def nearest_at_def renorm_def round_half_even_def binade_def binade_fix_def
  scale2_def sub_at_def ilog2_numeral ilog2_small

lemma ge_transp: "transp ((\<ge>) :: rat \<Rightarrow> rat \<Rightarrow> bool)"
  by (auto simp: transp_def)

text \<open>Two literals and one difference, as the format stores them.\<close>

lemma dec_examples:
  "dec 1805 1 = Double 6350779162034176 (- 45)"
  "dec 1652 1 = Double 5812458269075046 (- 45)"
  "dec 153 1 = Double 8613134287346074 (- 49)"
  "js_sub (dec 1805 1) (dec 1652 1) = Double 8613134287346080 (- 49)"
  by (simp_all add: num_eval)

section \<open>Strings and paths\<close>

lemma startsWith_prefix: "startsWith s w \<longleftrightarrow> prefix w s"
  by (induction s w rule: startsWith.induct) auto

lemma js_includes_sublist: "js_includes s w \<longleftrightarrow> sublist w s"
  by (induction s) (auto simp: startsWith_prefix sublist_Cons_right)

lemma js_includes_end: "js_includes (xs @ ys @ w) w"
  using sublist_appendI[of w "xs @ ys" "[]"] by (simp add: js_includes_sublist)

text \<open>A project identifier without a slash adds no occurrence of a wired substring.\<close>

lemma js_includes_skip:
  "CHR ''/'' \<notin> set pid \<Longrightarrow>
   js_includes (pid @ rest) (CHR ''/'' # w) = js_includes rest (CHR ''/'' # w)"
  by (induction pid) auto

lemma startsWith_segment:
  "CHR ''/'' \<notin> set pid \<Longrightarrow> CHR ''/'' \<notin> set a \<Longrightarrow>
   startsWith (pid @ CHR ''/'' # rest) (a @ CHR ''/'' # b) = (pid = a \<and> startsWith rest b)"
proof (induction pid arbitrary: a)
  case Nil
  then show ?case by (cases a) auto
next
  case (Cons x pid)
  then show ?case by (cases a) auto
qed

lemma peers_unwired:
  "CHR ''/'' \<notin> set pid \<Longrightarrow>
   \<forall>w \<in> set wired. \<not> js_includes (''/api/v1/projects/'' @ pid @ ''/federation/peers'') w"
  using startsWith_segment[of pid "''federation''" "''federation/peers''" "''aggregate''"]
    startsWith_segment[of pid "''models''" "''federation/peers''" "''survival/predict''"]
    startsWith_segment[of pid "''exploration''" "''federation/peers''" "''complement-stats''"]
    startsWith_segment[of pid "''exploration''" "''federation/peers''" "''conditional-tdigest''"]
  by (simp add: wired_def js_includes_skip)

lemma train_unwired:
  "CHR ''/'' \<notin> set pid \<Longrightarrow>
   \<forall>w \<in> set wired. \<not> js_includes (''/api/v1/projects/'' @ pid @ ''/models/survival/train'') w"
  using startsWith_segment[of pid "''federation''" "''models/survival/train''" "''aggregate''"]
    startsWith_segment[of pid "''models''" "''models/survival/train''" "''survival/predict''"]
    startsWith_segment[of pid "''exploration''" "''models/survival/train''" "''complement-stats''"]
    startsWith_segment[of pid "''exploration''" "''models/survival/train''" "''conditional-tdigest''"]
  by (simp add: wired_def js_includes_skip)

lemma plain_id_predict:
  "CHR ''/'' \<notin> set pid \<Longrightarrow>
   \<not> js_includes (''/api/v1/projects/'' @ pid @ ''/models/survival/predict'')
        ''/federation/aggregate''"
  using startsWith_segment[of pid "''federation''" "''models/survival/predict''" "''aggregate''"]
  by (simp add: js_includes_skip)

section \<open>Headers and the clock\<close>

lemma set_normalize_value: "set (normalize_value v) \<subseteq> set v"
proof -
  have "set (normalize_value v) \<subseteq> set (dropWhile http_whitespace v)"
    unfolding normalize_value_def
    using set_dropWhileD[of _ http_whitespace "rev (dropWhile http_whitespace v)"]
    by auto
  also have "\<dots> \<subseteq> set v"
    using set_dropWhileD[of _ http_whitespace v] by auto
  finally show ?thesis .
qed

lemma legal_normalize: "legal_header_value v \<Longrightarrow> legal_header_value (normalize_value v)"
  using set_normalize_value[of v] by (auto simp: legal_header_value_def)

lemma normalize_keeps:
  assumes "\<not> http_whitespace x" and "\<not> http_whitespace z"
  shows "normalize_value (x # ys @ [z]) = x # ys @ [z]"
  using assms by (simp add: normalize_value_def)

text \<open>What \<^verbatim>\<open>toISOString\<close> prints is always accepted as a header value.\<close>

lemma digit_char_digit: "digit_char n \<in> set ''0123456789''"
proof -
  have "n mod 10 < length ''0123456789''" by simp
  then show ?thesis unfolding digit_char_def by (rule nth_mem)
qed

lemma set_pad: "set (pad w n) \<subseteq> set ''0123456789''"
  using digit_char_digit by (induction w arbitrary: n) auto

lemma digits_sub: "set ''0123456789'' \<subseteq> set ''0123456789+-T:.Z''"
  by simp

lemma pad_chars: "set (pad w n) \<subseteq> set ''0123456789+-T:.Z''"
  using set_pad[of w n] digits_sub by (rule subset_trans)

lemma year_chars:
  "set (if utcFullYear d \<le> 9999 then pad 4 (utcFullYear d)
        else CHR ''+'' # pad 6 (utcFullYear d)) \<subseteq> set ''0123456789+-T:.Z''"
proof (cases "utcFullYear d \<le> 9999")
  case True
  then show ?thesis
    using pad_chars[of 4 "utcFullYear d"] by (simp only: if_True)
next
  case False
  have "CHR ''+'' \<in> set ''0123456789+-T:.Z''" by simp
  then show ?thesis
    using False pad_chars[of 6 "utcFullYear d"]
    by (simp only: if_False set_simps insert_subset simp_thms)
qed

lemma toISOString_chars: "set (toISOString d) \<subseteq> set ''0123456789+-T:.Z''"
proof -
  have l: "set ''-'' \<subseteq> set ''0123456789+-T:.Z''" "set ''T'' \<subseteq> set ''0123456789+-T:.Z''"
    "set '':'' \<subseteq> set ''0123456789+-T:.Z''" "set ''.'' \<subseteq> set ''0123456789+-T:.Z''"
    "set ''Z'' \<subseteq> set ''0123456789+-T:.Z''"
    by simp_all
  show ?thesis
    unfolding toISOString_def set_append by (intro Un_least year_chars pad_chars l)
qed

lemma toISOString_legal: "legal_header_value (normalize_value (toISOString d))"
proof -
  have "CHR 0x00 \<notin> set ''0123456789+-T:.Z''" "CHR 0x0A \<notin> set ''0123456789+-T:.Z''"
    "CHR 0x0D \<notin> set ''0123456789+-T:.Z''"
    by simp_all
  then have "legal_header_value (toISOString d)"
    unfolding legal_header_value_def using toISOString_chars[of d] by blast
  then show ?thesis by (rule legal_normalize)
qed

text \<open>
  The \<^verbatim>\<open>Authorization\<close> value begins with a letter and ends with a dot, so normalizing
  leaves it as it is, and it is accepted exactly when the access key holds no NUL, line
  feed or carriage return.
\<close>

lemma normalize_authorization: "normalize_value (authorization c) = authorization c"
proof -
  have a: "authorization c = CHR ''A'' # (''WS4-HMAC-SHA256 Credential=''
      @ (case config c of None \<Rightarrow> ''undefined'' | Some cfg \<Rightarrow> accessKey cfg) @ ''/..'')
      @ [CHR ''.'']"
    unfolding authorization_def by simp
  have "\<not> http_whitespace (CHR ''A'')" "\<not> http_whitespace (CHR ''.'')"
    by (simp_all add: http_whitespace_def)
  then show ?thesis
    unfolding a by (rule normalize_keeps)
qed

lemma legal_authorization:
  "legal_header_value (authorization c) \<longleftrightarrow>
     (case config c of None \<Rightarrow> True | Some cfg \<Rightarrow> legal_header_value (accessKey cfg))"
  by (auto simp: authorization_def legal_header_value_def split: option.splits)

lemma demClient_authorization: "legal_header_value (authorization demClient)"
  unfolding legal_authorization
  by (simp add: demClient_def DemClient_new_def initializeConfig_def legal_header_value_def)

lemma broken_key_authorization:
  "\<not> legal_header_value (authorization (updateConfig demClient broken_key))"
  unfolding legal_authorization
  by (simp add: demClient_def DemClient_new_def initializeConfig_def updateConfig_def spread_def
      broken_key_def legal_header_value_def)

lemma header_names_legal:
  "legal_header_name ''Authorization''" "legal_header_name ''X-Amz-Date''"
  "legal_header_name ''Content-Type''"
  by (simp_all add: legal_header_name_def is_tchar_def tchar_code_def)

lemma content_type_legal: "legal_header_value (normalize_value ''application/json'')"
  by (rule legal_normalize) (simp add: legal_header_value_def)

lemma Headers_set_legal:
  "legal_header_name k \<Longrightarrow> legal_header_value (normalize_value v) \<Longrightarrow>
   Headers_set k v hs = Inr (replace_entry k (normalize_value v) hs)"
  by (simp add: Headers_set_def validate_def)

lemma Headers_set_illegal:
  "legal_header_name k \<Longrightarrow> \<not> legal_header_value (normalize_value v) \<Longrightarrow>
   Headers_set k v hs = Inl (TypeError ''Invalid header value'')"
  by (simp add: Headers_set_def validate_def)

lemma Headers_fill_fault:
  "Headers_fill init hs = Inl e \<Longrightarrow>
   e = TypeError ''Invalid header name'' \<or> e = TypeError ''Invalid header value''"
  by (induction init hs rule: Headers_fill.induct)
     (auto simp: Headers_append_def validate_def split: sum.splits option.splits if_splits)

section \<open>The client's control flow\<close>

lemma reachable_config: "reachable c \<Longrightarrow> \<exists>cfg. config c = Some cfg"
  by (induction rule: reachable.induct)
     (auto simp: DemClient_new_def initializeConfig_def updateConfig_def split: option.splits)

lemma demClient_config: "\<exists>cfg. config demClient = Some cfg"
  by (simp add: demClient_def DemClient_new_def initializeConfig_def)

lemma demClient_reachable: "reachable demClient"
  unfolding demClient_def by (rule reachable.constructed)

lemma broken_key_reachable: "reachable (updateConfig demClient broken_key)"
  unfolding demClient_def by (rule reachable.updated[OF reachable.constructed])

text \<open>
  \<open>signRequest\<close> rejects when the caller's headers are refused or the
  \<^verbatim>\<open>Authorization\<close> value is, and resolves otherwise, whatever the clock reads.
\<close>

lemma signRequest_cases:
  "signRequest c now url options =
     (case Headers_new (headers options) of
        Inl e \<Rightarrow> Rejected e
      | Inr h0 \<Rightarrow>
          if legal_header_value (authorization c)
          then Resolved (options\<lparr>headers :=
                 replace_entry ''Content-Type'' (normalize_value ''application/json'')
                   (replace_entry ''X-Amz-Date'' (normalize_value (toISOString now))
                     (replace_entry ''Authorization'' (authorization c) h0))\<rparr>)
          else Rejected (TypeError ''Invalid header value''))"
proof (cases "legal_header_value (authorization c)")
  case True
  then have a: "legal_header_value (normalize_value (authorization c))"
    by (simp only: normalize_authorization)
  show ?thesis
    unfolding signRequest_def
    by (simp only: Headers_set_legal[OF header_names_legal(1) a]
        Headers_set_legal[OF header_names_legal(2) toISOString_legal]
        Headers_set_legal[OF header_names_legal(3) content_type_legal]
        normalize_authorization True if_True sum.case)
next
  case False
  then have a: "\<not> legal_header_value (normalize_value (authorization c))"
    by (simp only: normalize_authorization not_False_eq_True)
  show ?thesis
    unfolding signRequest_def
    by (simp only: Headers_set_illegal[OF header_names_legal(1) a] False if_False sum.case)
qed

lemma fetch_cases:
  "fetch c now path options =
     (case config c of
        None \<Rightarrow> Resolved not_configured
      | Some cfg \<Rightarrow>
          (case Headers_new (headers options) of
             Inl e \<Rightarrow> Resolved (err (catch_message e))
           | Inr h0 \<Rightarrow>
               if legal_header_value (authorization c)
               then Resolved (getMockResponse path options)
               else Resolved (err ''Invalid header value'')))"
  by (simp add: fetch_def signRequest_cases not_configured_def catch_message_def
      split: option.splits sum.splits)

lemma fetch_plain:
  "headers options = [] \<Longrightarrow>
   fetch c now path options =
     (case config c of
        None \<Rightarrow> Resolved not_configured
      | Some cfg \<Rightarrow>
          if legal_header_value (authorization c)
          then Resolved (getMockResponse path options)
          else Resolved (err ''Invalid header value''))"
  by (simp add: fetch_cases Headers_new_def split: option.splits)

lemma fetch_reachable:
  "reachable c \<Longrightarrow> legal_header_value (authorization c) \<Longrightarrow> headers options = [] \<Longrightarrow>
   fetch c now path options = Resolved (getMockResponse path options)"
  using reachable_config[of c] by (auto simp: fetch_plain)

lemma post_cases:
  "post c now path v =
     (if has_bigint v then Rejected (TypeError ''Do not know how to serialize a BigInt'')
      else fetch c now path \<lparr>http_method = Some ''POST'', body = Some (JsonText v), headers = []\<rparr>)"
  by (simp add: post_def JSON_stringify_def)

lemma post_reachable:
  "reachable c \<Longrightarrow> legal_header_value (authorization c) \<Longrightarrow> \<not> has_bigint v \<Longrightarrow>
   post c now path v
     = Resolved (getMockResponse path
         \<lparr>http_method = Some ''POST'', body = Some (JsonText v), headers = []\<rparr>)"
  by (simp add: post_cases fetch_reachable)

lemma no_bigint_strings: "list_ex has_bigint (map JString xs) = False"
  by (induction xs) auto

lemma no_bigint_numbers: "list_ex has_bigint (map JNumber xs) = False"
  by (induction xs) auto

lemma getMockResponse_spec: "getMockResponse path options = spec_dispatch path"
  by (simp add: getMockResponse_def spec_dispatch_def spec_dispatch_table_def)

lemma getMockResponse_unwired:
  "\<forall>w \<in> set wired. \<not> js_includes path w \<Longrightarrow> getMockResponse path options = not_implemented"
  by (simp add: getMockResponse_def wired_def not_implemented_def)

lemma getMockResponse_exactly_one: "exactly_one (getMockResponse path options)"
  by (simp add: getMockResponse_def exactly_one_def ok_def err_def)

lemma err_exactly_one: "exactly_one (err m)"
  by (simp add: exactly_one_def err_def)

lemma not_configured_exactly_one: "exactly_one not_configured"
  by (simp add: exactly_one_def not_configured_def err_def)

lemma getMockResponse_stats:
  "getMockResponse path options = r \<Longrightarrow> data r = Some (StatsList es) \<Longrightarrow> es = mockStats"
  by (auto simp: getMockResponse_def ok_def err_def split: if_splits)

lemma getMockResponse_prediction:
  "getMockResponse path options = r \<Longrightarrow> data r = Some (Prediction p) \<Longrightarrow> p = mockPrediction"
  by (auto simp: getMockResponse_def ok_def err_def split: if_splits)

lemma post_data:
  "post c now path v = Resolved r \<Longrightarrow> data r = Some p \<Longrightarrow>
   \<exists>options. getMockResponse path options = r"
  by (auto simp: post_cases fetch_plain not_configured_def err_def
      split: if_splits option.splits)

text \<open>
  \<open>fetch\<close> always resolves, with a payload or an error message and never both; a request
  method resolves exactly when its body serializes.
\<close>

lemma fetch_exactly_one: "\<exists>r. fetch c now path options = Resolved r \<and> exactly_one r"
  by (simp add: fetch_cases getMockResponse_exactly_one not_configured_exactly_one
      err_exactly_one split: option.splits sum.splits)

lemma post_resolves:
  "\<not> has_bigint v \<Longrightarrow> \<exists>r. post c now path v = Resolved r \<and> exactly_one r"
  using fetch_exactly_one by (simp add: post_cases)

lemma post_rejects:
  "has_bigint v \<Longrightarrow> post c now path v = Rejected (TypeError ''Do not know how to serialize a BigInt'')"
  by (simp add: post_cases)

lemma request_methods_resolve:
  "\<exists>r. getFederationPeers c now projectId = Resolved r \<and> exactly_one r"
  "\<exists>r. getConditionalTDigest c now projectId feat classBy nbins = Resolved r \<and> exactly_one r"
  "\<not> has_bigint cohort \<Longrightarrow>
     \<exists>r. aggregateData c now projectId cohort metrics horizons = Resolved r \<and> exactly_one r"
  "\<not> has_bigint cohort \<Longrightarrow>
     \<exists>r. getComplementStats c now projectId cohort condition features = Resolved r \<and>
         exactly_one r"
  "\<not> has_bigint cohort \<Longrightarrow>
     \<exists>r. trainSurvivalModel c now projectId a label censor features cohort = Resolved r \<and>
         exactly_one r"
  "\<not> has_bigint fvalues \<Longrightarrow>
     \<exists>r. predictSurvival c now projectId modelId fvalues horizons = Resolved r \<and> exactly_one r"
proof -
  show "\<exists>r. getFederationPeers c now projectId = Resolved r \<and> exactly_one r"
    unfolding getFederationPeers_def by (rule fetch_exactly_one)
  show "\<exists>r. getConditionalTDigest c now projectId feat classBy nbins = Resolved r \<and> exactly_one r"
    unfolding getConditionalTDigest_def by (rule post_resolves) simp
  show "\<exists>r. aggregateData c now projectId cohort metrics horizons = Resolved r \<and> exactly_one r"
    if "\<not> has_bigint cohort"
    unfolding aggregateData_def
    by (rule post_resolves) (simp add: that no_bigint_strings no_bigint_numbers)
  show "\<exists>r. getComplementStats c now projectId cohort condition features = Resolved r \<and>
         exactly_one r"
    if "\<not> has_bigint cohort"
    unfolding getComplementStats_def
    by (rule post_resolves) (simp add: that no_bigint_strings)
  show "\<exists>r. trainSurvivalModel c now projectId a label censor features cohort = Resolved r \<and>
         exactly_one r"
    if "\<not> has_bigint cohort"
    unfolding trainSurvivalModel_def
    by (rule post_resolves) (simp add: that no_bigint_strings)
  show "\<exists>r. predictSurvival c now projectId modelId fvalues horizons = Resolved r \<and> exactly_one r"
    if "\<not> has_bigint fvalues"
    unfolding predictSurvival_def
    by (rule post_resolves) (simp add: that no_bigint_numbers)
qed

section \<open>Failures at the client boundary\<close>

text \<open>
  Claim C1: every request method returns, for every input, a response in which exactly
  one of the data field and the error field is populated, and never throws across the
  public boundary. The code does not do so. A method called with a cohort filter or with
  feature values that hold a \<^verbatim>\<open>BigInt\<close> rejects with the \<^verbatim>\<open>TypeError\<close> of
  \<^verbatim>\<open>JSON.stringify\<close>: the body is serialized before \<open>fetch\<close> is entered, outside
  its \<^verbatim>\<open>try\<close> block.
\<close>

theorem C1_serialization_fault_escapes:
  "aggregateData demClient now ''demo-project'' (JBigInt 1) [] []
     = Rejected (TypeError ''Do not know how to serialize a BigInt'') \<and>
   getComplementStats demClient now ''demo-project'' (JObject [(''depth'', JBigInt 1)])
       ''failed==1'' [''RPM'']
     = Rejected (TypeError ''Do not know how to serialize a BigInt'') \<and>
   trainSurvivalModel demClient now ''demo-project'' Cox ''hours'' ''censored'' [''RPM'']
       (JArray [JBigInt 1])
     = Rejected (TypeError ''Do not know how to serialize a BigInt'') \<and>
   predictSurvival demClient now ''demo-project'' ''weibull-model-001''
       (JObject [(''RPM'', JBigInt 160)]) [dec 10 0]
     = Rejected (TypeError ''Do not know how to serialize a BigInt'')"
  by (simp add: aggregateData_def getComplementStats_def trainSurvivalModel_def
      predictSurvival_def post_cases)

text \<open>
  Without a configuration \<open>fetch\<close> answers "not configured" at once, and so does every
  request method whose body serializes.
\<close>

lemma unconfigured_requests:
  assumes "config c = None"
  shows "fetch c now path options = Resolved not_configured \<and>
         getFederationPeers c now projectId = Resolved not_configured \<and>
         getConditionalTDigest c now projectId feat classBy nbins = Resolved not_configured \<and>
         (\<not> has_bigint cohort \<longrightarrow>
            aggregateData c now projectId cohort metrics horizons = Resolved not_configured \<and>
            getComplementStats c now projectId cohort condition features
              = Resolved not_configured \<and>
            trainSurvivalModel c now projectId a label censor features cohort
              = Resolved not_configured) \<and>
         (\<not> has_bigint fvalues \<longrightarrow>
            predictSurvival c now projectId modelId fvalues horizons = Resolved not_configured) \<and>
         data not_configured = None \<and>
         (\<exists>m. error not_configured = Some m \<and> m \<noteq> [])"
  using assms
  by (simp add: getFederationPeers_def aggregateData_def getComplementStats_def
      getConditionalTDigest_def trainSurvivalModel_def predictSurvival_def
      post_cases fetch_cases no_bigint_strings no_bigint_numbers not_configured_def err_def)


section \<open>The configuration\<close>

text \<open>
  Claim C7: \<open>updateConfig\<close> merges the partial object into the current configuration
  field by field, a field named in the partial object taking its new value and every other
  field keeping its own; without a configuration it changes nothing.
\<close>

theorem C7_updateConfig_merge:
  "(config c = Some cur \<longrightarrow>
      config (updateConfig c p) = Some (spread cur p) \<and>
      baseUrl (spread cur p) = (case baseUrl_opt p of Some v \<Rightarrow> v | None \<Rightarrow> baseUrl cur) \<and>
      region (spread cur p) = (case region_opt p of Some v \<Rightarrow> v | None \<Rightarrow> region cur) \<and>
      accessKey (spread cur p) = (case accessKey_opt p of Some v \<Rightarrow> v | None \<Rightarrow> accessKey cur) \<and>
      secretKey (spread cur p) = (case secretKey_opt p of Some v \<Rightarrow> v | None \<Rightarrow> secretKey cur))
   \<and> (config c = None \<longrightarrow> updateConfig c p = c)"
  by (simp add: updateConfig_def spread_def)

text \<open>The example of the claim, and a client without a configuration.\<close>

theorem C7_updateConfig_merge_witness:
  "config \<lparr>config = Some \<lparr>baseUrl = ''A'', region = ''B'', accessKey = ''k'', secretKey = ''s''\<rparr>\<rparr>
     = Some \<lparr>baseUrl = ''A'', region = ''B'', accessKey = ''k'', secretKey = ''s''\<rparr> \<and>
   config (updateConfig
       \<lparr>config = Some \<lparr>baseUrl = ''A'', region = ''B'', accessKey = ''k'', secretKey = ''s''\<rparr>\<rparr>
       \<lparr>baseUrl_opt = None, region_opt = Some ''C'', accessKey_opt = None, secretKey_opt = None\<rparr>)
     = Some \<lparr>baseUrl = ''A'', region = ''C'', accessKey = ''k'', secretKey = ''s''\<rparr> \<and>
   config \<lparr>config = None\<rparr> = None \<and>
   updateConfig \<lparr>config = None\<rparr>
       \<lparr>baseUrl_opt = None, region_opt = Some ''C'', accessKey_opt = None, secretKey_opt = None\<rparr>
     = \<lparr>config = None\<rparr>"
  using
    C7_updateConfig_merge[of
      "\<lparr>config = Some \<lparr>baseUrl = ''A'', region = ''B'', accessKey = ''k'', secretKey = ''s''\<rparr>\<rparr>"
      "\<lparr>baseUrl = ''A'', region = ''B'', accessKey = ''k'', secretKey = ''s''\<rparr>"
      "\<lparr>baseUrl_opt = None, region_opt = Some ''C'', accessKey_opt = None, secretKey_opt = None\<rparr>"]
    C7_updateConfig_merge[of "\<lparr>config = None\<rparr>"
      "\<lparr>baseUrl = ''A'', region = ''B'', accessKey = ''k'', secretKey = ''s''\<rparr>"
      "\<lparr>baseUrl_opt = None, region_opt = Some ''C'', accessKey_opt = None, secretKey_opt = None\<rparr>"]
  by (simp add: spread_def)

text \<open>
  Claim C9: the constructor sets a configuration and no operation removes it, so on every
  client a program can hold, the exported one among them, \<open>isConfigured\<close> is true and
  \<open>fetch\<close> never answers "not configured".
\<close>

theorem C9_always_configured:
  assumes "reachable c"
  shows "config c \<noteq> None \<and> isConfigured c \<and>
         isConfigured demClient \<and> reachable demClient \<and>
         fetch c now path options \<noteq> Resolved not_configured"
proof -
  have m: "getMockResponse path options \<noteq> not_configured"
    by (simp add: getMockResponse_def not_configured_def ok_def err_def)
  have e: "err (catch_message x) \<noteq> not_configured"
    if "x = TypeError ''Invalid header name'' \<or> x = TypeError ''Invalid header value''" for x
    using that by (auto simp: catch_message_def not_configured_def err_def)
  have h: "err ''Invalid header value'' \<noteq> not_configured"
    by (simp add: not_configured_def err_def)
  obtain cfg where cfg: "config c = Some cfg"
    using assms reachable_config by blast
  have "fetch c now path options \<noteq> Resolved not_configured"
  proof (cases "Headers_new (headers options)")
    case (Inl x)
    then have "x = TypeError ''Invalid header name'' \<or> x = TypeError ''Invalid header value''"
      unfolding Headers_new_def by (rule Headers_fill_fault)
    then show ?thesis
      using cfg Inl e[of x] by (simp add: fetch_cases)
  next
    case (Inr h0)
    then show ?thesis
      using cfg m h by (simp add: fetch_cases)
  qed
  then show ?thesis
    using cfg demClient_config demClient_reachable by (auto simp: isConfigured_def)
qed

text \<open>The exported client after an update from the settings page.\<close>

theorem C9_always_configured_witness:
  "reachable (updateConfig demClient
       \<lparr>baseUrl_opt = None, region_opt = None, accessKey_opt = Some [], secretKey_opt = Some []\<rparr>) \<and>
   isConfigured (updateConfig demClient
       \<lparr>baseUrl_opt = None, region_opt = None, accessKey_opt = Some [], secretKey_opt = Some []\<rparr>) \<and>
   fetch (updateConfig demClient
       \<lparr>baseUrl_opt = None, region_opt = None, accessKey_opt = Some [], secretKey_opt = Some []\<rparr>)
       new_year_2026 ''/api/v1/projects/demo-project/federation/peers'' no_options
     \<noteq> Resolved not_configured"
proof -
  have r: "reachable (updateConfig demClient
       \<lparr>baseUrl_opt = None, region_opt = None, accessKey_opt = Some [], secretKey_opt = Some []\<rparr>)"
    unfolding demClient_def by (rule reachable.updated[OF reachable.constructed])
  show ?thesis
    using r C9_always_configured[OF r] by blast
qed

section \<open>The mock dispatch\<close>

lemma peers_response:
  assumes "reachable c" and "legal_header_value (authorization c)"
  shows "getFederationPeers c now projectId
     = Resolved (getMockResponse (''/api/v1/projects/'' @ projectId @ ''/federation/peers'')
         no_options)"
  using assms
  by (simp add: getFederationPeers_def fetch_reachable no_options_def del: append.simps)

lemma train_response:
  assumes "reachable c" and "legal_header_value (authorization c)" and "\<not> has_bigint cohort"
  shows "\<exists>options. trainSurvivalModel c now projectId a label censor features cohort
     = Resolved (getMockResponse (''/api/v1/projects/'' @ projectId @ ''/models/survival/train'')
         options)"
proof -
  have "\<not> has_bigint (JObject [(''algo'', JString (algo_name a)), (''label'', JString label),
                 (''censor'', JString censor), (''features'', JArray (map JString features)),
                 (''cohort'', cohort)])"
    using assms(3) by (simp add: no_bigint_strings)
  then show ?thesis
    unfolding trainSurvivalModel_def
    using post_reachable[OF assms(1,2)] by blast
qed

text \<open>
  Claim C2, as the code has it: \<open>getMockResponse\<close> is the total function that scans
  the ordered table of the four wired substrings and answers with the payload of the first
  one the path contains; a path that contains none of the four gets the error response
  "Mock endpoint not implemented". The path of a \<open>getFederationPeers\<close> or
  \<open>trainSurvivalModel\<close> call contains none of the four unless the project identifier
  brings one in (an identifier without a slash never does); such a call resolves with that
  error response when the platform accepts the \<^verbatim>\<open>Authorization\<close> value made from the
  client's access key and, for \<open>trainSurvivalModel\<close>, the body serializes.
\<close>

theorem C2_mock_dispatch:
  "getMockResponse path options = spec_dispatch path \<and>
   ((\<forall>w \<in> set wired. \<not> js_includes path w) \<longrightarrow>
      getMockResponse path options = not_implemented) \<and>
   ((\<forall>w \<in> set wired.
        \<not> js_includes (''/api/v1/projects/'' @ projectId @ ''/federation/peers'') w) \<and>
    reachable c \<and> legal_header_value (authorization c) \<longrightarrow>
      getFederationPeers c now projectId = Resolved not_implemented) \<and>
   ((\<forall>w \<in> set wired.
        \<not> js_includes (''/api/v1/projects/'' @ projectId @ ''/models/survival/train'') w) \<and>
    reachable c \<and> legal_header_value (authorization c) \<and> \<not> has_bigint cohort \<longrightarrow>
      trainSurvivalModel c now projectId a label censor features cohort
        = Resolved not_implemented) \<and>
   (CHR ''/'' \<notin> set projectId \<longrightarrow>
      (\<forall>w \<in> set wired.
         \<not> js_includes (''/api/v1/projects/'' @ projectId @ ''/federation/peers'') w) \<and>
      (\<forall>w \<in> set wired.
         \<not> js_includes (''/api/v1/projects/'' @ projectId @ ''/models/survival/train'') w)) \<and>
   error not_implemented = Some ''Mock endpoint not implemented'' \<and>
   data not_implemented = None"
proof -
  have 1: "getMockResponse path options = spec_dispatch path"
    by (rule getMockResponse_spec)
  have 2: "(\<forall>w \<in> set wired. \<not> js_includes path w) \<longrightarrow>
      getMockResponse path options = not_implemented"
    using getMockResponse_unwired by blast
  have 3: "getFederationPeers c now projectId = Resolved not_implemented"
    if "\<forall>w \<in> set wired.
          \<not> js_includes (''/api/v1/projects/'' @ projectId @ ''/federation/peers'') w"
      and "reachable c" and "legal_header_value (authorization c)"
    using peers_response[OF that(2,3)] getMockResponse_unwired[OF that(1)] by simp
  have 4: "trainSurvivalModel c now projectId a label censor features cohort
      = Resolved not_implemented"
    if "\<forall>w \<in> set wired.
          \<not> js_includes (''/api/v1/projects/'' @ projectId @ ''/models/survival/train'') w"
      and "reachable c" and "legal_header_value (authorization c)" and "\<not> has_bigint cohort"
    using train_response[OF that(2,3,4)] getMockResponse_unwired[OF that(1)] by metis
  have 5: "error not_implemented = Some ''Mock endpoint not implemented''"
    "data not_implemented = None"
    by (simp_all add: not_implemented_def err_def)
  show ?thesis
    using 1 2 3 4 5 peers_unwired[of projectId] train_unwired[of projectId] by blast
qed

text \<open>A project identifier with a slash in it, and one without.\<close>

theorem C2_mock_dispatch_witness:
  "list_all (\<lambda>w. \<not> js_includes ''/api/v1/projects/org/team/federation/peers'' w) wired \<and>
   list_all (\<lambda>w. \<not> js_includes ''/api/v1/projects/org/team/models/survival/train'' w) wired \<and>
   reachable demClient \<and> legal_header_value (authorization demClient) \<and>
   \<not> has_bigint (JObject [(''timeRange'', JString ''90d'')]) \<and>
   CHR ''/'' \<notin> set ''demo-project'' \<and>
   getMockResponse ''/api/v1/projects/org/team/models/survival/train'' no_options
     = not_implemented \<and>
   getFederationPeers demClient new_year_2026 ''org/team'' = Resolved not_implemented \<and>
   trainSurvivalModel demClient new_year_2026 ''org/team'' Weibull
       ''hours'' ''censored'' [''RPM'', ''WOB''] (JObject [(''timeRange'', JString ''90d'')])
     = Resolved not_implemented \<and>
   list_all (\<lambda>w. \<not> js_includes (''/api/v1/projects/'' @ ''demo-project'' @ ''/federation/peers'') w)
     wired"
proof -
  have u: "\<forall>w \<in> set wired. \<not> js_includes ''/api/v1/projects/org/team/models/survival/train'' w"
    "\<forall>w \<in> set wired. \<not> js_includes ''/api/v1/projects/org/team/federation/peers'' w"
    by (simp_all add: wired_def)
  have p: "''/api/v1/projects/'' @ ''org/team'' @ ''/federation/peers''
      = ''/api/v1/projects/org/team/federation/peers''"
    "''/api/v1/projects/'' @ ''org/team'' @ ''/models/survival/train''
      = ''/api/v1/projects/org/team/models/survival/train''"
    by simp_all
  have s: "CHR ''/'' \<notin> set ''demo-project''"
    by simp
  have b: "\<not> has_bigint (JObject [(''timeRange'', JString ''90d'')])"
    by simp
  note t = C2_mock_dispatch[where path = "''/api/v1/projects/org/team/models/survival/train''"
        and options = no_options and projectId = "''org/team''" and c = demClient
        and now = new_year_2026 and a = Weibull and label = "''hours''"
        and censor = "''censored''" and features = "[''RPM'', ''WOB'']"
        and cohort = "JObject [(''timeRange'', JString ''90d'')]", unfolded p]
  note d = C2_mock_dispatch[where path = "[]" and options = no_options
        and projectId = "''demo-project''" and c = demClient
        and now = new_year_2026 and a = Weibull and label = "[]"
        and censor = "[]" and features = "[]" and cohort = JNull]
  show ?thesis
    unfolding list_all_iff
    using u s b demClient_reachable demClient_authorization t d by blast
qed

text \<open>
  Claim C2 as it is stated fails. With a project identifier that contains a wired
  substring, \<open>getFederationPeers\<close> resolves with the survival summary; on a client
  whose access key has a line feed in it, it resolves with the error of
  \<^verbatim>\<open>Headers.set\<close>; and \<open>trainSurvivalModel\<close> with a cohort filter that does not
  serialize rejects.
\<close>

theorem C2_mock_dispatch_counterexample:
  "getFederationPeers demClient new_year_2026 ''x/federation/aggregate''
     = Resolved (ok (Survival mockSurvival)) \<and>
   getFederationPeers (updateConfig demClient broken_key) new_year_2026 ''demo-project''
     = Resolved (err ''Invalid header value'') \<and>
   trainSurvivalModel demClient new_year_2026 ''demo-project'' Weibull ''hours'' ''censored''
       [''RPM''] (JObject [(''minDepth'', JBigInt 1000)])
     = Rejected (TypeError ''Do not know how to serialize a BigInt'')"
proof -
  have "getFederationPeers demClient new_year_2026 ''x/federation/aggregate''
     = Resolved (ok (Survival mockSurvival))"
    using peers_response[OF demClient_reachable demClient_authorization,
        of new_year_2026 "''x/federation/aggregate''"]
    by (simp add: getMockResponse_def)
  moreover have "getFederationPeers (updateConfig demClient broken_key) new_year_2026
      ''demo-project'' = Resolved (err ''Invalid header value'')"
    using broken_key_authorization reachable_config[OF broken_key_reachable]
    by (auto simp: getFederationPeers_def fetch_plain no_options_def)
  moreover have "trainSurvivalModel demClient new_year_2026 ''demo-project'' Weibull ''hours''
       ''censored'' [''RPM''] (JObject [(''minDepth'', JBigInt 1000)])
     = Rejected (TypeError ''Do not know how to serialize a BigInt'')"
    by (simp add: trainSurvivalModel_def post_cases)
  ultimately show ?thesis
    by blast
qed

section \<open>The survival summary\<close>

lemma time_axis_vals:
  "map val [dec 0 0, dec 10 0, dec 20 0, dec 30 0, dec 40 0, dec 50 0, dec 60 0, dec 70 0,
            dec 80 0, dec 90 0, dec 100 0, dec 110 0, dec 120 0, dec 130 0, dec 140 0, dec 150 0]
   = [0, 10, 20, 30, 40, 50, 60, 70, 80, 90, 100, 110, 120, 130, 140, 150]"
  by (simp add: num_eval)

lemma mockSurvival_lengths:
  "length (km_t (km mockSurvival)) = 16" "length (km_s (km mockSurvival)) = 16"
  "length (hazard_t (hazard mockSurvival)) = 16" "length (hazard_h (hazard mockSurvival)) = 16"
  by (simp_all add: mockSurvival_def)

lemma mockSurvival_times:
  "map val (km_t (km mockSurvival))
     = [0, 10, 20, 30, 40, 50, 60, 70, 80, 90, 100, 110, 120, 130, 140, 150]"
  "map val (hazard_t (hazard mockSurvival))
     = [0, 10, 20, 30, 40, 50, 60, 70, 80, 90, 100, 110, 120, 130, 140, 150]"
  using time_axis_vals by (simp_all add: mockSurvival_def)

lemma aggregate_response:
  assumes "reachable c" and "legal_header_value (authorization c)" and "\<not> has_bigint cohort"
  shows "aggregateData c now projectId cohort metrics horizons
           = Resolved (ok (Survival mockSurvival))"
proof -
  have "\<not> has_bigint (JObject [(''cohort'', cohort), (''metrics'', JArray (map JString metrics)),
                 (''horizons'', JArray (map JNumber horizons))])"
    using assms(3) by (simp add: no_bigint_strings no_bigint_numbers)
  then have "aggregateData c now projectId cohort metrics horizons
      = Resolved (getMockResponse (''/api/v1/projects/'' @ projectId @ ''/federation/aggregate'')
          \<lparr>http_method = Some ''POST'',
           body = Some (JsonText (JObject [(''cohort'', cohort),
                    (''metrics'', JArray (map JString metrics)),
                    (''horizons'', JArray (map JNumber horizons))])),
           headers = []\<rparr>)"
    unfolding aggregateData_def by (rule post_reachable[OF assms(1,2)])
  then show ?thesis
    using js_includes_end[of "''/api/v1/projects/''" projectId "''/federation/aggregate''"]
    by (simp add: getMockResponse_def del: append.simps)
qed

text \<open>
  Claim C4, as the code has it: for every project identifier, any cohort filter that
  serializes, any metric names and horizons, on a client whose access key makes an
  \<^verbatim>\<open>Authorization\<close> value that the platform accepts, \<open>aggregateData\<close> resolves with
  the survival summary; its survival curve and its hazard curve each pair a time array
  with a value array of the same length, and both time arrays are non-decreasing (they
  increase strictly).
\<close>

theorem C4_aggregate_summary:
  assumes "reachable c" and "legal_header_value (authorization c)" and "\<not> has_bigint cohort"
  shows "aggregateData c now projectId cohort metrics horizons
           = Resolved (ok (Survival mockSurvival)) \<and>
         length (km_t (km mockSurvival)) = length (km_s (km mockSurvival)) \<and>
         length (hazard_t (hazard mockSurvival)) = length (hazard_h (hazard mockSurvival)) \<and>
         sorted (map val (km_t (km mockSurvival))) \<and>
         sorted (map val (hazard_t (hazard mockSurvival))) \<and>
         sorted_wrt (<) (map val (km_t (km mockSurvival))) \<and>
         sorted_wrt (<) (map val (hazard_t (hazard mockSurvival)))"
  using aggregate_response[OF assms]
  by (simp add: mockSurvival_lengths mockSurvival_times)

theorem C4_aggregate_summary_witness:
  "reachable demClient \<and> legal_header_value (authorization demClient) \<and>
   \<not> has_bigint (JObject [(''timeRange'', JString ''90d'')]) \<and>
   aggregateData demClient new_year_2026 ''demo-project''
       (JObject [(''timeRange'', JString ''90d'')]) [''survival'', ''hazard'']
       [dec 10 0, dec 50 0, dec 100 0, dec 150 0]
     = Resolved (ok (Survival mockSurvival)) \<and>
   length (km_t (km mockSurvival)) = length (km_s (km mockSurvival)) \<and>
   length (hazard_t (hazard mockSurvival)) = length (hazard_h (hazard mockSurvival)) \<and>
   sorted (map val (km_t (km mockSurvival))) \<and>
   sorted (map val (hazard_t (hazard mockSurvival)))"
proof -
  have b: "\<not> has_bigint (JObject [(''timeRange'', JString ''90d'')])"
    by simp
  show ?thesis
    using demClient_reachable demClient_authorization b
      C4_aggregate_summary[OF demClient_reachable demClient_authorization b,
        of new_year_2026 "''demo-project''"
        "[''survival'', ''hazard'']" "[dec 10 0, dec 50 0, dec 100 0, dec 150 0]"]
    by blast
qed

text \<open>
  Claim C4 as it is stated fails: on a client whose access key has a line feed in it
  \<open>aggregateData\<close> resolves with the error of \<^verbatim>\<open>Headers.set\<close>, and with a cohort
  filter that does not serialize it rejects.
\<close>

theorem C4_aggregate_summary_counterexample:
  "reachable (updateConfig demClient broken_key) \<and>
   aggregateData (updateConfig demClient broken_key) new_year_2026 ''demo-project''
       (JObject [(''timeRange'', JString ''90d'')]) [''survival'', ''hazard'']
       [dec 10 0, dec 50 0, dec 100 0, dec 150 0]
     = Resolved (err ''Invalid header value'') \<and>
   aggregateData demClient new_year_2026 ''demo-project''
       (JObject [(''serial'', JBigInt 9007199254740993)]) [''survival'', ''hazard'']
       [dec 10 0, dec 50 0, dec 100 0, dec 150 0]
     = Rejected (TypeError ''Do not know how to serialize a BigInt'')"
proof -
  have "aggregateData (updateConfig demClient broken_key) new_year_2026 ''demo-project''
       (JObject [(''timeRange'', JString ''90d'')]) [''survival'', ''hazard'']
       [dec 10 0, dec 50 0, dec 100 0, dec 150 0]
     = Resolved (err ''Invalid header value'')"
    using broken_key_authorization reachable_config[OF broken_key_reachable]
    by (auto simp: aggregateData_def post_cases fetch_plain)
  moreover have "aggregateData demClient new_year_2026 ''demo-project''
       (JObject [(''serial'', JBigInt 9007199254740993)]) [''survival'', ''hazard'']
       [dec 10 0, dec 50 0, dec 100 0, dec 150 0]
     = Rejected (TypeError ''Do not know how to serialize a BigInt'')"
    by (simp add: aggregateData_def post_cases)
  ultimately show ?thesis
    using broken_key_reachable by blast
qed

section \<open>The prediction\<close>

lemma mockPrediction_keys:
  "map fst (atHorizons mockPrediction) = [''10'', ''50'', ''100'', ''150'']"
  by (simp add: mockPrediction_def)

lemma mockPrediction_horizon_range:
  "\<forall>(k, v) \<in> set (atHorizons mockPrediction). 0 \<le> val v \<and> val v \<le> 1"
  by (simp add: mockPrediction_def num_eval)

lemma predict_response:
  assumes "reachable c" and "legal_header_value (authorization c)" and "\<not> has_bigint fvalues"
    and "\<not> js_includes (''/api/v1/projects/'' @ projectId @ ''/models/survival/predict'')
           ''/federation/aggregate''"
  shows "predictSurvival c now projectId modelId fvalues horizons
           = Resolved (ok (Prediction mockPrediction))"
proof -
  have "\<not> has_bigint (JObject [(''modelId'', JString modelId), (''features'', fvalues),
                 (''horizons'', JArray (map JNumber horizons))])"
    using assms(3) by (simp add: no_bigint_numbers)
  then have "predictSurvival c now projectId modelId fvalues horizons
      = Resolved (getMockResponse (''/api/v1/projects/'' @ projectId @ ''/models/survival/predict'')
          \<lparr>http_method = Some ''POST'',
           body = Some (JsonText (JObject [(''modelId'', JString modelId),
                    (''features'', fvalues),
                    (''horizons'', JArray (map JNumber horizons))])),
           headers = []\<rparr>)"
    unfolding predictSurvival_def by (rule post_reachable[OF assms(1,2)])
  then show ?thesis
    using assms(4)
      js_includes_end[of "''/api/v1/projects/''" projectId "''/models/survival/predict''"]
    by (simp add: getMockResponse_def del: append.simps)
qed

text \<open>
  Claim C5, as the code has it: called with the horizons 10, 50, 100 and 150, any model
  identifier, any feature values that serialize, and a project identifier with which the
  request path does not contain \<^verbatim>\<open>/federation/aggregate\<close> (one without a slash, for
  instance), on a client whose access key makes an \<^verbatim>\<open>Authorization\<close> value that the
  platform accepts, \<open>predictSurvival\<close> resolves with the prediction; its
  \<open>atHorizons\<close> mapping has exactly the keys "10", "50", "100" and "150", and each value
  lies in the closed interval from 0 to 1.
\<close>

theorem C5_predict_horizons:
  assumes "reachable c" and "legal_header_value (authorization c)" and "\<not> has_bigint fvalues"
    and "\<not> js_includes (''/api/v1/projects/'' @ projectId @ ''/models/survival/predict'')
           ''/federation/aggregate''"
  shows "predictSurvival c now projectId modelId fvalues [dec 10 0, dec 50 0, dec 100 0, dec 150 0]
           = Resolved (ok (Prediction mockPrediction)) \<and>
         map fst (atHorizons mockPrediction) = [''10'', ''50'', ''100'', ''150''] \<and>
         (\<forall>(k, v) \<in> set (atHorizons mockPrediction). 0 \<le> val v \<and> val v \<le> 1)"
  using predict_response[OF assms] mockPrediction_keys mockPrediction_horizon_range by simp

theorem C5_predict_horizons_witness:
  "reachable demClient \<and> legal_header_value (authorization demClient) \<and>
   \<not> has_bigint (JObject [(''RPM'', JNumber (dec 160 0)), (''BIT_TYPE'', JString ''PDC'')]) \<and>
   \<not> js_includes (''/api/v1/projects/'' @ ''demo-project'' @ ''/models/survival/predict'')
        ''/federation/aggregate'' \<and>
   predictSurvival demClient new_year_2026 ''demo-project'' ''weibull-model-001''
       (JObject [(''RPM'', JNumber (dec 160 0)), (''BIT_TYPE'', JString ''PDC'')])
       [dec 10 0, dec 50 0, dec 100 0, dec 150 0]
     = Resolved (ok (Prediction mockPrediction)) \<and>
   map fst (atHorizons mockPrediction) = [''10'', ''50'', ''100'', ''150''] \<and>
   list_all (\<lambda>(k, v). 0 \<le> val v \<and> val v \<le> 1) (atHorizons mockPrediction)"
proof -
  have b: "\<not> has_bigint (JObject [(''RPM'', JNumber (dec 160 0)), (''BIT_TYPE'', JString ''PDC'')])"
    by simp
  have p: "\<not> js_includes (''/api/v1/projects/'' @ ''demo-project'' @ ''/models/survival/predict'')
        ''/federation/aggregate''"
    by simp
  show ?thesis
    unfolding list_all_iff
    using demClient_reachable demClient_authorization b p
      C5_predict_horizons[OF demClient_reachable demClient_authorization b p,
        of new_year_2026 "''weibull-model-001''"]
    by blast
qed

text \<open>
  Claim C5 as it is stated fails. The test for \<^verbatim>\<open>/federation/aggregate\<close> comes first,
  so with a project identifier that contains it \<open>predictSurvival\<close> resolves with the
  survival summary, which has no horizon mapping; on a client whose access key has a line
  feed in it, it resolves with the error of \<^verbatim>\<open>Headers.set\<close>; and with feature values
  that do not serialize it rejects.
\<close>

theorem C5_predict_horizons_counterexample:
  "predictSurvival demClient new_year_2026 ''x/federation/aggregate''
       ''weibull-model-001'' JNull [dec 10 0, dec 50 0, dec 100 0, dec 150 0]
     = Resolved (ok (Survival mockSurvival)) \<and>
   predictSurvival (updateConfig demClient broken_key) new_year_2026 ''demo-project''
       ''weibull-model-001'' JNull [dec 10 0, dec 50 0, dec 100 0, dec 150 0]
     = Resolved (err ''Invalid header value'') \<and>
   predictSurvival demClient new_year_2026 ''demo-project''
       ''weibull-model-001'' (JObject [(''WOB'', JBigInt 25)])
       [dec 10 0, dec 50 0, dec 100 0, dec 150 0]
     = Rejected (TypeError ''Do not know how to serialize a BigInt'')"
proof -
  have "predictSurvival demClient new_year_2026 ''x/federation/aggregate''
       ''weibull-model-001'' JNull [dec 10 0, dec 50 0, dec 100 0, dec 150 0]
     = Resolved (ok (Survival mockSurvival))"
    using demClient_authorization demClient_config
    by (auto simp: predictSurvival_def post_cases fetch_plain getMockResponse_def)
  moreover have "predictSurvival (updateConfig demClient broken_key) new_year_2026
       ''demo-project'' ''weibull-model-001'' JNull [dec 10 0, dec 50 0, dec 100 0, dec 150 0]
     = Resolved (err ''Invalid header value'')"
    using broken_key_authorization reachable_config[OF broken_key_reachable]
    by (auto simp: predictSurvival_def post_cases fetch_plain)
  moreover have "predictSurvival demClient new_year_2026 ''demo-project''
       ''weibull-model-001'' (JObject [(''WOB'', JBigInt 25)])
       [dec 10 0, dec 50 0, dec 100 0, dec 150 0]
     = Rejected (TypeError ''Do not know how to serialize a BigInt'')"
    by (simp add: predictSurvival_def post_cases)
  ultimately show ?thesis
    by blast
qed

lemma mockPrediction_consistent:
  "\<forall>(k, v) \<in> set (atHorizons mockPrediction).
      \<exists>i < length (pred_t mockPrediction).
        js_Number k = Some (pred_t mockPrediction ! i) \<and> i < length (pred_s mockPrediction) \<and>
        v = pred_s mockPrediction ! i"
proof -
  let ?P = "\<lambda>k v i. js_Number k = Some (pred_t mockPrediction ! i) \<and>
              i < length (pred_s mockPrediction) \<and> v = pred_s mockPrediction ! i"
  have d: "digit_of (CHR ''0'') = Some 0" "digit_of (CHR ''1'') = Some 1"
    "digit_of (CHR ''5'') = Some 5"
    by (simp_all add: digit_of_def)
  have len: "length (pred_t mockPrediction) = 16"
    by (simp add: mockPrediction_def)
  have "?P ''10'' (dec 97 2) 1"
    by (simp add: js_Number_def d mockPrediction_def dec_def)
  then have e1: "\<exists>i < length (pred_t mockPrediction). ?P ''10'' (dec 97 2) i"
    unfolding len by (intro exI[of _ 1]) simp
  have "?P ''50'' (dec 80 2) 5"
    by (simp add: js_Number_def d mockPrediction_def dec_def)
  then have e2: "\<exists>i < length (pred_t mockPrediction). ?P ''50'' (dec 80 2) i"
    unfolding len by (intro exI[of _ 5]) simp
  have "?P ''100'' (dec 48 2) 10"
    by (simp add: js_Number_def d mockPrediction_def dec_def)
  then have e3: "\<exists>i < length (pred_t mockPrediction). ?P ''100'' (dec 48 2) i"
    unfolding len by (intro exI[of _ 10]) simp
  have "?P ''150'' (dec 18 2) 15"
    by (simp add: js_Number_def d mockPrediction_def dec_def)
  then have e4: "\<exists>i < length (pred_t mockPrediction). ?P ''150'' (dec 18 2) i"
    unfolding len by (intro exI[of _ 15]) simp
  have ah: "atHorizons mockPrediction =
      [(''10'', dec 97 2), (''50'', dec 80 2), (''100'', dec 48 2), (''150'', dec 18 2)]"
    by (simp add: mockPrediction_def)
  show ?thesis
    unfolding ah using e1 e2 e3 e4 by (simp del: One_nat_def)
qed

lemma mockPrediction_starts_at_one:
  "pred_s mockPrediction \<noteq> []" "val (hd (pred_s mockPrediction)) = 1"
  by (simp_all add: mockPrediction_def num_eval)

lemma mockPrediction_non_increasing: "sorted_wrt (\<ge>) (map val (pred_s mockPrediction))"
  by (simp add: mockPrediction_def num_eval sorted_wrt2[OF ge_transp] sorted_wrt1
      del: sorted_wrt.simps)

text \<open>
  Claim C10: the prediction that \<open>predictSurvival\<close> returns is consistent with itself.
  Each key of \<open>atHorizons\<close>, read as a number, is a point of the time array, and its
  value is the survival value at that point; the survival array starts at 1 and never
  increases.
\<close>

theorem C10_prediction_consistent:
  assumes "predictSurvival c now projectId modelId fvalues horizons = Resolved r"
    and "data r = Some (Prediction p)"
  shows "(\<forall>(k, v) \<in> set (atHorizons p).
            \<exists>i < length (pred_t p).
              js_Number k = Some (pred_t p ! i) \<and> i < length (pred_s p) \<and> v = pred_s p ! i) \<and>
         pred_s p \<noteq> [] \<and> val (hd (pred_s p)) = 1 \<and> sorted_wrt (\<ge>) (map val (pred_s p))"
proof -
  from assms have "p = mockPrediction"
    unfolding predictSurvival_def using post_data getMockResponse_prediction by blast
  then show ?thesis
    using mockPrediction_consistent mockPrediction_starts_at_one mockPrediction_non_increasing
    by simp
qed

theorem C10_prediction_consistent_witness:
  "predictSurvival demClient new_year_2026 ''demo-project'' ''weibull-model-001''
       (JObject [(''RPM'', JNumber (dec 160 0))]) [dec 10 0, dec 50 0, dec 100 0, dec 150 0]
     = Resolved (ok (Prediction mockPrediction)) \<and>
   data (ok (Prediction mockPrediction)) = Some (Prediction mockPrediction) \<and>
   list_all (\<lambda>(k, v).
      \<exists>i < length (pred_t mockPrediction).
        js_Number k = Some (pred_t mockPrediction ! i) \<and> i < length (pred_s mockPrediction) \<and>
        v = pred_s mockPrediction ! i) (atHorizons mockPrediction) \<and>
   val (hd (pred_s mockPrediction)) = 1 \<and>
   sorted_wrt (\<ge>) (map val (pred_s mockPrediction))"
proof -
  have c: "predictSurvival demClient new_year_2026 ''demo-project''
       ''weibull-model-001'' (JObject [(''RPM'', JNumber (dec 160 0))])
       [dec 10 0, dec 50 0, dec 100 0, dec 150 0]
     = Resolved (ok (Prediction mockPrediction))"
    by (rule predict_response[OF demClient_reachable demClient_authorization]) simp_all
  have d: "data (ok (Prediction mockPrediction)) = Some (Prediction mockPrediction)"
    by (simp add: ok_def)
  show ?thesis
    unfolding list_all_iff
    using c d C10_prediction_consistent[OF c d] by blast
qed

section \<open>The complement statistics\<close>

lemma mockStats_rounding:
  "\<forall>e \<in> set mockStats.
     \<bar>val (js_sub (failed_mean e) (complement_mean e)) - val (delta_mean e)\<bar> < 1 / 10 ^ 13"
  by (simp add: mockStats_def num_eval)

lemma stats_response:
  assumes "reachable c" and "legal_header_value (authorization c)" and "\<not> has_bigint cohort"
    and "CHR ''/'' \<notin> set projectId"
  shows "getComplementStats c now projectId cohort condition features
           = Resolved (ok (StatsList mockStats))"
proof -
  have "\<not> has_bigint (JObject [(''cohort'', cohort), (''condition'', JString condition),
                 (''features'', JArray (map JString features))])"
    using assms(3) by (simp add: no_bigint_strings)
  then have "getComplementStats c now projectId cohort condition features
      = Resolved (getMockResponse
          (''/api/v1/projects/'' @ projectId @ ''/exploration/complement-stats'')
          \<lparr>http_method = Some ''POST'',
           body = Some (JsonText (JObject [(''cohort'', cohort),
                    (''condition'', JString condition),
                    (''features'', JArray (map JString features))])),
           headers = []\<rparr>)"
    unfolding getComplementStats_def by (rule post_reachable[OF assms(1,2)])
  moreover have "\<not> js_includes (''/api/v1/projects/'' @ projectId @ ''/exploration/complement-stats'')
      ''/federation/aggregate''"
    using assms(4)
      startsWith_segment[of projectId "''federation''" "''exploration/complement-stats''"
        "''aggregate''"]
    by (simp add: js_includes_skip)
  moreover have "\<not> js_includes (''/api/v1/projects/'' @ projectId @ ''/exploration/complement-stats'')
      ''/models/survival/predict''"
    using assms(4)
      startsWith_segment[of projectId "''models''" "''exploration/complement-stats''"
        "''survival/predict''"]
    by (simp add: js_includes_skip)
  ultimately show ?thesis
    using js_includes_end[of "''/api/v1/projects/''" projectId "''/exploration/complement-stats''"]
    by (simp add: getMockResponse_def del: append.simps)
qed

text \<open>
  Claim C6, as the code has it: in every entry of the list that \<open>getComplementStats\<close>
  returns, \<open>delta_mean\<close> equals \<open>failed_mean - complement_mean\<close> up to the rounding of
  binary floating point: the difference the program computes is within \<open>1 / 10 ^ 13\<close>
  of \<open>delta_mean\<close>.
\<close>

theorem C6_delta_mean_rounded:
  assumes "getComplementStats c now projectId cohort condition features = Resolved r"
    and "data r = Some (StatsList es)"
  shows "\<forall>e \<in> set es.
     \<bar>val (js_sub (failed_mean e) (complement_mean e)) - val (delta_mean e)\<bar> < 1 / 10 ^ 13"
proof -
  from assms have "es = mockStats"
    unfolding getComplementStats_def using post_data getMockResponse_stats by blast
  then show ?thesis
    using mockStats_rounding by simp
qed

theorem C6_delta_mean_rounded_witness:
  "getComplementStats demClient new_year_2026 ''demo-project''
       (JObject [(''timeRange'', JString ''90d'')]) ''failed==1'' [''RPM'', ''WOB'', ''ROP'']
     = Resolved (ok (StatsList mockStats)) \<and>
   data (ok (StatsList mockStats)) = Some (StatsList mockStats) \<and>
   list_all (\<lambda>e.
     \<bar>val (js_sub (failed_mean e) (complement_mean e)) - val (delta_mean e)\<bar> < 1 / 10 ^ 13)
     mockStats"
proof -
  have c: "getComplementStats demClient new_year_2026 ''demo-project''
       (JObject [(''timeRange'', JString ''90d'')]) ''failed==1'' [''RPM'', ''WOB'', ''ROP'']
     = Resolved (ok (StatsList mockStats))"
    by (rule stats_response[OF demClient_reachable demClient_authorization]) simp_all
  have d: "data (ok (StatsList mockStats)) = Some (StatsList mockStats)"
    by (simp add: ok_def)
  show ?thesis
    unfolding list_all_iff
    using c d C6_delta_mean_rounded[OF c d] by blast
qed

text \<open>
  Claim C6 as it is stated (exact equality) fails on the first entry, the one for RPM:
  \<^verbatim>\<open>180.5 - 165.2\<close> is not the number \<^verbatim>\<open>15.3\<close>.
\<close>

theorem C6_delta_mean_rounded_counterexample:
  "getComplementStats demClient new_year_2026 ''demo-project''
       (JObject [(''timeRange'', JString ''90d'')]) ''failed==1'' [''RPM'', ''WOB'', ''ROP'']
     = Resolved (ok (StatsList mockStats)) \<and>
   feature (mockStats ! 0) = ''RPM'' \<and>
   delta_mean (mockStats ! 0)
     \<noteq> js_sub (failed_mean (mockStats ! 0)) (complement_mean (mockStats ! 0))"
proof -
  have "getComplementStats demClient new_year_2026 ''demo-project''
       (JObject [(''timeRange'', JString ''90d'')]) ''failed==1'' [''RPM'', ''WOB'', ''ROP'']
     = Resolved (ok (StatsList mockStats))"
    by (rule stats_response[OF demClient_reachable demClient_authorization]) simp_all
  moreover have "feature (mockStats ! 0) = ''RPM''"
    by (simp add: mockStats_def)
  moreover have "delta_mean (mockStats ! 0)
      \<noteq> js_sub (failed_mean (mockStats ! 0)) (complement_mean (mockStats ! 0))"
    by (simp add: mockStats_def num_eval)
  ultimately show ?thesis
    by blast
qed

section \<open>Determinism\<close>




end
